theory Spec2Isabelle
  imports Complex_Main "HOL-Library.Word"
begin

section \<open>EventStore to SQLite converter: a model of main.py\<close>

text \<open>
  The definitions below follow \<^verbatim>\<open>main.py\<close>: the record normaliser
  (\<^verbatim>\<open>SQLiteEvent\<close>), the batch writer (\<^verbatim>\<open>SQLiteEventStore\<close>) and the
  ingest loop (\<^verbatim>\<open>convert_events\<close>). Python exceptions are values of the type
  \<open>error\<close>; a method that mutates its object returns the updated object.
  Logging has no effect on any value and is left out. Floating point values
  are outside the model: a \<^verbatim>\<open>datetime\<close> is represented by the integer that
  \<^verbatim>\<open>int(d.timestamp())\<close> yields, wall-clock readings are rationals.
\<close>

subsection \<open>Python values\<close>

text \<open>
  A Python \<^verbatim>\<open>str\<close> is a sequence of code points, a \<^verbatim>\<open>bytes\<close> object a
  sequence of octets.
\<close>

type_synonym pystr = "nat list"
type_synonym pybytes = "8 word list"

definition lit :: "string \<Rightarrow> pystr" where
  "lit s = map of_char s"

datatype py_value =
    PyNone
  | PyBool bool
  | PyInt int
  | PyStr pystr
  | PyBytes pybytes
  | PyDatetime int
  | PyList "py_value list"
  | PyTuple "py_value list"
  | PyDict "(py_value \<times> py_value) list"
  | PyObject

datatype validation_kind = InvalidEncoding | Unserializable | TooLarge

datatype error =
    EventValidationError validation_kind
  | TypeError
  | UnicodeEncodeError
  | ZeroDivisionError
  | ValueError
  | SqliteError
  | IntegrityError
  | ReadError

subsection \<open>UTF-8\<close>

text \<open>
  \<^verbatim>\<open>bytes.decode("utf-8")\<close> is strict: it accepts exactly the well-formed
  byte sequences of the Unicode standard (no overlong forms, no surrogates,
  nothing above U+10FFFF). \<open>None\<close> stands for \<^verbatim>\<open>UnicodeDecodeError\<close>.
\<close>

definition is_cont :: "8 word \<Rightarrow> bool" where
  "is_cont b = (0x80 \<le> b \<and> b \<le> 0xBF)"

definition cont_bits :: "8 word \<Rightarrow> nat" where
  "cont_bits b = unat b - 0x80"

definition utf8_head :: "8 word \<Rightarrow> pybytes \<Rightarrow> (nat \<times> nat) option" where
  \<comment> \<open>the code point that starts with lead byte \<open>b0\<close>, and how many of the
      following bytes belong to it\<close>
  "utf8_head b0 bs =
     (if b0 < 0x80 then Some (unat b0, 0)
      else if 0xC2 \<le> b0 \<and> b0 \<le> 0xDF then
        (case bs of
           b1 # r \<Rightarrow>
             if is_cont b1 then Some ((unat b0 - 0xC0) * 64 + cont_bits b1, 1) else None
         | _ \<Rightarrow> None)
      else if 0xE0 \<le> b0 \<and> b0 \<le> 0xEF then
        (case bs of
           b1 # b2 # r \<Rightarrow>
             if is_cont b1 \<and> is_cont b2
                \<and> (b0 = 0xE0 \<longrightarrow> 0xA0 \<le> b1) \<and> (b0 = 0xED \<longrightarrow> b1 \<le> 0x9F)
             then Some ((unat b0 - 0xE0) * 4096 + cont_bits b1 * 64 + cont_bits b2, 2)
             else None
         | _ \<Rightarrow> None)
      else if 0xF0 \<le> b0 \<and> b0 \<le> 0xF4 then
        (case bs of
           b1 # b2 # b3 # r \<Rightarrow>
             if is_cont b1 \<and> is_cont b2 \<and> is_cont b3
                \<and> (b0 = 0xF0 \<longrightarrow> 0x90 \<le> b1) \<and> (b0 = 0xF4 \<longrightarrow> b1 \<le> 0x8F)
             then Some ((unat b0 - 0xF0) * 262144 + cont_bits b1 * 4096
                        + cont_bits b2 * 64 + cont_bits b3, 3)
             else None
         | _ \<Rightarrow> None)
      else None)"

fun utf8_decode :: "pybytes \<Rightarrow> pystr option" where
  "utf8_decode [] = Some []"
| "utf8_decode (b0 # bs) =
     (case utf8_head b0 bs of
        None \<Rightarrow> None
      | Some (c, k) \<Rightarrow> map_option (Cons c) (utf8_decode (drop k bs)))"

text \<open>
  \<^verbatim>\<open>str.encode("utf-8")\<close> raises \<^verbatim>\<open>UnicodeEncodeError\<close> on a surrogate code
  point (\<open>None\<close> here); a \<^verbatim>\<open>str\<close> holds no code point above U+10FFFF.
\<close>

definition utf8_encode_char :: "nat \<Rightarrow> pybytes option" where
  "utf8_encode_char c =
     (if c < 0x80 then Some [of_nat c]
      else if c < 0x800 then Some [of_nat (0xC0 + c div 64), of_nat (0x80 + c mod 64)]
      else if 0xD800 \<le> c \<and> c \<le> 0xDFFF then None
      else if c < 0x10000 then
        Some [of_nat (0xE0 + c div 4096), of_nat (0x80 + (c div 64) mod 64),
              of_nat (0x80 + c mod 64)]
      else if c \<le> 0x10FFFF then
        Some [of_nat (0xF0 + c div 262144), of_nat (0x80 + (c div 4096) mod 64),
              of_nat (0x80 + (c div 64) mod 64), of_nat (0x80 + c mod 64)]
      else None)"

fun utf8_encode :: "pystr \<Rightarrow> pybytes option" where
  "utf8_encode [] = Some []"
| "utf8_encode (c # cs) =
     (case utf8_encode_char c of
        None \<Rightarrow> None
      | Some bs \<Rightarrow> map_option ((@) bs) (utf8_encode cs))"

subsection \<open>The text forms Python produces: \<^verbatim>\<open>str(int)\<close> and \<^verbatim>\<open>json.dumps\<close>\<close>

fun digits :: "nat \<Rightarrow> pystr" where
  "digits n = (if n < 10 then [48 + n] else digits (n div 10) @ [48 + n mod 10])"

declare digits.simps [simp del]

definition str_int :: "int \<Rightarrow> pystr" where
  "str_int i = (if i < 0 then 45 # digits (nat (- i)) else digits (nat i))"

text \<open>
  \<^verbatim>\<open>json.dumps\<close> with its default arguments (\<^verbatim>\<open>ensure_ascii=True\<close>, separators
  \<^verbatim>\<open>", "\<close> and \<^verbatim>\<open>": "\<close>, \<^verbatim>\<open>skipkeys=False\<close>): every character outside
  the printable ASCII range is written as a \<^verbatim>\<open>\uXXXX\<close> escape, a code point above
  U+FFFF as a surrogate pair; a tuple is written as an array; a dictionary key that is
  \<^verbatim>\<open>None\<close>, a bool or an int is written as a string; anything else raises
  \<^verbatim>\<open>TypeError\<close>.
\<close>

definition hex_digit :: "nat \<Rightarrow> nat" where
  "hex_digit d = (if d < 10 then 48 + d else 87 + d)"

definition uescape :: "nat \<Rightarrow> pystr" where
  "uescape c = [92, 117, hex_digit (c div 4096 mod 16), hex_digit (c div 256 mod 16),
                hex_digit (c div 16 mod 16), hex_digit (c mod 16)]"

definition escape_char :: "nat \<Rightarrow> pystr" where
  "escape_char c =
     (if c = 34 then [92, 34]
      else if c = 92 then [92, 92]
      else if c = 10 then [92, 110]
      else if c = 13 then [92, 114]
      else if c = 9 then [92, 116]
      else if c = 8 then [92, 98]
      else if c = 12 then [92, 102]
      else if 32 \<le> c \<and> c \<le> 126 then [c]
      else if c < 0x10000 then uescape c
      else uescape (0xD800 + (c - 0x10000) div 1024 mod 1024)
           @ uescape (0xDC00 + (c - 0x10000) mod 1024))"

definition json_string :: "pystr \<Rightarrow> pystr" where
  "json_string s = 34 # concat (map escape_char s) @ [34]"

fun join :: "pystr \<Rightarrow> pystr list \<Rightarrow> pystr" where
  "join sep [] = []"
| "join sep [t] = t"
| "join sep (t # u # ts) = t @ sep @ join sep (u # ts)"

fun collect :: "(error + 'a) list \<Rightarrow> error + 'a list" where
  "collect [] = Inr []"
| "collect (Inl e # rs) = Inl e"
| "collect (Inr x # rs) = (case collect rs of Inl e \<Rightarrow> Inl e | Inr xs \<Rightarrow> Inr (x # xs))"

fun json_key :: "py_value \<Rightarrow> error + pystr" where
  "json_key (PyStr s) = Inr s"
| "json_key (PyBool b) = Inr (lit (if b then ''true'' else ''false''))"
| "json_key PyNone = Inr (lit ''null'')"
| "json_key (PyInt i) = Inr (str_int i)"
| "json_key _ = Inl TypeError"

fun json_dumps :: "py_value \<Rightarrow> error + pystr" where
  "json_dumps PyNone = Inr (lit ''null'')"
| "json_dumps (PyBool b) = Inr (lit (if b then ''true'' else ''false''))"
| "json_dumps (PyInt i) = Inr (str_int i)"
| "json_dumps (PyStr s) = Inr (json_string s)"
| "json_dumps (PyList xs) =
     (case collect (map json_dumps xs) of
        Inl e \<Rightarrow> Inl e
      | Inr ts \<Rightarrow> Inr (lit ''['' @ join (lit '', '') ts @ lit '']''))"
| "json_dumps (PyTuple xs) =
     (case collect (map json_dumps xs) of
        Inl e \<Rightarrow> Inl e
      | Inr ts \<Rightarrow> Inr (lit ''['' @ join (lit '', '') ts @ lit '']''))"
| "json_dumps (PyDict kvs) =
     (case collect (map (\<lambda>(k, v).
              case json_key k of
                Inl e \<Rightarrow> Inl e
              | Inr ks \<Rightarrow>
                  (case json_dumps v of
                     Inl e \<Rightarrow> Inl e
                   | Inr t \<Rightarrow> Inr (json_string ks @ lit '': '' @ t))) kvs) of
        Inl e \<Rightarrow> Inl e
      | Inr ts \<Rightarrow> Inr (lit ''{'' @ join (lit '', '') ts @ lit ''}''))"
| "json_dumps (PyBytes bs) = Inl TypeError"
| "json_dumps (PyDatetime t) = Inl TypeError"
| "json_dumps PyObject = Inl TypeError"

subsection \<open>\<^verbatim>\<open>SQLiteEvent\<close>: normalising one event\<close>

text \<open>
  A \<^verbatim>\<open>RecordedEvent\<close> as the constructor reads it. \<open>raw_id\<close> is
  \<^verbatim>\<open>str(event.id)\<close>, \<open>raw_recorded_at\<close> is
  \<^verbatim>\<open>int(event.recorded_at.timestamp())\<close>. The seven positioning attributes are read
  with \<^verbatim>\<open>getattr(event, name, default)\<close>: \<open>None\<close> is an attribute the object
  does not have, \<open>Some PyNone\<close> an attribute whose value is \<^verbatim>\<open>None\<close>.
\<close>

record RecordedEvent =
  raw_id :: pystr
  raw_type :: "pystr option"
  raw_stream_name :: "pystr option"
  raw_recorded_at :: int
  raw_data :: py_value
  stream_position :: "py_value option"
  commit_position :: "py_value option"
  prepare_position :: "py_value option"
  retry_count :: "py_value option"
  link :: "py_value option"
  content_type :: "py_value option"
  created :: "py_value option"

record SQLiteEvent =
  se_id :: pystr
  se_type :: pystr
  se_stream_name :: pystr
  se_recorded_at :: int
  se_data :: "pystr option"
  se_eventstore_metadata :: pystr

definition MAX_DATA_SIZE :: nat where
  "MAX_DATA_SIZE = 1024 * 1024"

definition py_or :: "pystr option \<Rightarrow> pystr \<Rightarrow> pystr" where
  \<comment> \<open>\<^verbatim>\<open>x or d\<close>: \<^verbatim>\<open>None\<close> and the empty string are both falsy\<close>
  "py_or x d = (case x of None \<Rightarrow> d | Some s \<Rightarrow> if s = [] then d else s)"

definition validate_size :: "pystr \<Rightarrow> bool \<Rightarrow> error + pystr option" where
  \<comment> \<open>the end of \<^verbatim>\<open>_process_event_data\<close>, once \<^verbatim>\<open>data_str\<close> is known\<close>
  "validate_size data_str validate =
     (if validate then
        (case utf8_encode data_str of
           None \<Rightarrow> Inl UnicodeEncodeError
         | Some bs \<Rightarrow>
             if length bs > MAX_DATA_SIZE then Inl (EventValidationError TooLarge)
             else Inr (Some data_str))
      else Inr (Some data_str))"

definition process_event_data :: "py_value \<Rightarrow> bool \<Rightarrow> error + pystr option" where
  "process_event_data data validate =
     (case data of
        PyNone \<Rightarrow> Inr None
      | PyBytes bs \<Rightarrow>
          (case utf8_decode bs of
             None \<Rightarrow> if validate then Inl (EventValidationError InvalidEncoding) else Inr None
           | Some data_str \<Rightarrow> validate_size data_str validate)
      | PyStr data_str \<Rightarrow> validate_size data_str validate
      | _ \<Rightarrow>
          (case json_dumps data of
             Inl e \<Rightarrow>
               if e = TypeError \<or> e = ValueError
               then (if validate then Inl (EventValidationError Unserializable) else Inr None)
               else Inl e
           | Inr data_str \<Rightarrow> validate_size data_str validate))"

definition getattr :: "py_value option \<Rightarrow> py_value \<Rightarrow> py_value" where
  "getattr a d = (case a of None \<Rightarrow> d | Some v \<Rightarrow> v)"

definition metadata :: "RecordedEvent \<Rightarrow> (pystr \<times> py_value) list" where
  "metadata event =
     [(lit ''stream_position'', getattr (stream_position event) PyNone),
      (lit ''commit_position'', getattr (commit_position event) PyNone),
      (lit ''prepare_position'', getattr (prepare_position event) PyNone),
      (lit ''retry_count'', getattr (retry_count event) (PyInt 0)),
      (lit ''link'', getattr (link event) PyNone),
      (lit ''content_type'', getattr (content_type event) PyNone),
      (lit ''created'', getattr (created event) PyNone)]"

fun has_timestamp :: "py_value \<Rightarrow> bool" where
  "has_timestamp (PyDatetime t) = True"
| "has_timestamp _ = False"

fun convert_timestamp :: "py_value \<Rightarrow> py_value" where
  "convert_timestamp (PyDatetime t) = PyInt t"
| "convert_timestamp v = v"

definition cleaned_metadata :: "RecordedEvent \<Rightarrow> (pystr \<times> py_value) list" where
  "cleaned_metadata event =
     map (\<lambda>(key, v). (key, convert_timestamp v))
         (filter (\<lambda>(key, v). v \<noteq> PyNone) (metadata event))"

definition serialize_metadata :: "RecordedEvent \<Rightarrow> error + pystr" where
  "serialize_metadata event =
     json_dumps (PyDict (map (\<lambda>(key, v). (PyStr key, v)) (cleaned_metadata event)))"

definition SQLiteEvent_init :: "RecordedEvent \<Rightarrow> bool \<Rightarrow> error + SQLiteEvent" where
  "SQLiteEvent_init event validate =
     (case process_event_data (raw_data event) validate of
        Inl e \<Rightarrow> Inl e
      | Inr d \<Rightarrow>
          (case serialize_metadata event of
             Inl e \<Rightarrow> Inl e
           | Inr m \<Rightarrow>
               Inr \<lparr>se_id = raw_id event,
                    se_type = py_or (raw_type event) (lit ''unknown''),
                    se_stream_name = py_or (raw_stream_name event) (lit ''unknown''),
                    se_recorded_at = raw_recorded_at event,
                    se_data = d,
                    se_eventstore_metadata = m\<rparr>))"

subsection \<open>The SQLite database behind the connection\<close>

text \<open>
  The \<^verbatim>\<open>sqlite3\<close> driver is an external collaborator. Its state is the record
  \<open>database\<close>: the two tables as the open connection sees them, the tables as of
  the last commit, the driver calls the program has issued (\<open>journal\<close>), and a
  schedule of driver failures (\<open>faults\<close>): each driver call consumes the head of
  the schedule and raises \<^verbatim>\<open>sqlite3.Error\<close> when it is \<open>True\<close>. The tables are
  those of \<^verbatim>\<open>_create_schema\<close>; \<open>event_row\<close> holds the six columns the program
  writes (\<^verbatim>\<open>processed_at\<close> is filled in by the database).
\<close>

record event_row =
  row_id :: pystr
  row_recorded_at :: int
  row_event_type :: pystr
  row_stream_name :: pystr
  row_data :: "pystr option"
  row_eventstore_metadata :: pystr

datatype driver_call =
    Executemany "event_row list"
  | ExecuteMetadata pystr pystr
  | Commit
  | CloseConnection
  | SelectCount
  | SelectRange

record database =
  events :: "event_row list"
  conversion_metadata :: "(pystr \<times> pystr) list"
  durable_events :: "event_row list"
  durable_metadata :: "(pystr \<times> pystr) list"
  journal :: "driver_call list"
  faults :: "bool list"

definition sqlite_length :: "pystr \<Rightarrow> nat" where
  \<comment> \<open>SQL \<^verbatim>\<open>length(X)\<close> of a text value: the number of characters before the
      first U+0000\<close>
  "sqlite_length s = length (takeWhile (\<lambda>c. c \<noteq> 0) s)"

definition check_constraints :: "event_row \<Rightarrow> bool" where
  \<comment> \<open>the three \<^verbatim>\<open>CHECK\<close> clauses of the \<^verbatim>\<open>events\<close> table\<close>
  "check_constraints r =
     (row_recorded_at r > 0
      \<and> sqlite_length (row_event_type r) > 0
      \<and> sqlite_length (row_stream_name r) > 0)"

definition insert_or_replace :: "event_row \<Rightarrow> event_row list \<Rightarrow> event_row list" where
  \<comment> \<open>\<^verbatim>\<open>INSERT OR REPLACE\<close> on the primary key \<^verbatim>\<open>id\<close>: the rows in conflict are
      deleted, then the new row is inserted\<close>
  "insert_or_replace r tbl = filter (\<lambda>x. row_id x \<noteq> row_id r) tbl @ [r]"

fun insert_rows :: "event_row list \<Rightarrow> event_row list \<Rightarrow> error option \<times> event_row list" where
  \<comment> \<open>one execution of the statement per row; a failed \<^verbatim>\<open>CHECK\<close> aborts that row
      and ends the call, the rows before it stay in the open transaction\<close>
  "insert_rows [] tbl = (None, tbl)"
| "insert_rows (r # rs) tbl =
     (if check_constraints r then insert_rows rs (insert_or_replace r tbl)
      else (Some IntegrityError, tbl))"

definition issue :: "driver_call \<Rightarrow> database \<Rightarrow> bool \<times> database" where
  "issue call d =
     (case faults d of
        [] \<Rightarrow> (False, d\<lparr>journal := journal d @ [call]\<rparr>)
      | f # fs \<Rightarrow> (f, d\<lparr>journal := journal d @ [call], faults := fs\<rparr>))"

definition executemany :: "event_row list \<Rightarrow> database \<Rightarrow> error option \<times> database" where
  "executemany rows d =
     (case issue (Executemany rows) d of
        (True, d1) \<Rightarrow> (Some SqliteError, d1)
      | (False, d1) \<Rightarrow>
          (case insert_rows rows (events d1) of (e, tbl) \<Rightarrow> (e, d1\<lparr>events := tbl\<rparr>)))"

definition execute_metadata :: "pystr \<Rightarrow> pystr \<Rightarrow> database \<Rightarrow> error option \<times> database" where
  "execute_metadata key val d =
     (case issue (ExecuteMetadata key val) d of
        (True, d1) \<Rightarrow> (Some SqliteError, d1)
      | (False, d1) \<Rightarrow>
          (None, d1\<lparr>conversion_metadata :=
                       filter (\<lambda>(k, v). k \<noteq> key) (conversion_metadata d1) @ [(key, val)]\<rparr>))"

definition commit :: "database \<Rightarrow> error option \<times> database" where
  "commit d =
     (case issue Commit d of
        (True, d1) \<Rightarrow> (Some SqliteError, d1)
      | (False, d1) \<Rightarrow>
          (None, d1\<lparr>durable_events := events d1,
                     durable_metadata := conversion_metadata d1\<rparr>))"

definition close_connection :: "database \<Rightarrow> error option \<times> database" where
  \<comment> \<open>closing rolls back whatever has not been committed\<close>
  "close_connection d =
     (case issue CloseConnection d of
        (True, d1) \<Rightarrow> (Some SqliteError, d1)
      | (False, d1) \<Rightarrow>
          (None, d1\<lparr>events := durable_events d1,
                     conversion_metadata := durable_metadata d1\<rparr>))"

subsection \<open>\<^verbatim>\<open>ConversionConfig\<close> and \<^verbatim>\<open>SQLiteEventStore\<close>\<close>

record ConversionConfig =
  eventstore_uri :: pystr
  db_path :: pystr
  batch_size :: int
  commit_frequency :: int
  validate_data :: bool
  create_indexes :: bool

definition post_init :: "ConversionConfig \<Rightarrow> error + ConversionConfig" where
  "post_init cfg =
     (if eventstore_uri cfg = [] then Inl ValueError
      else if batch_size cfg \<le> 0 then Inl ValueError
      else if commit_frequency cfg \<le> 0 then Inl ValueError
      else Inr cfg)"

datatype connection_handle = Connection

record SQLiteEventStore =
  config :: ConversionConfig
  connection :: "connection_handle option"
  events_processed :: int
  batches_processed :: int
  database :: database

definition SQLiteEventStore_enter :: "ConversionConfig \<Rightarrow> database \<Rightarrow> SQLiteEventStore" where
  \<comment> \<open>\<^verbatim>\<open>__init__\<close> and a successful \<^verbatim>\<open>connect()\<close>; \<open>d\<close> is the database once the
      schema exists, with whatever rows it already held\<close>
  "SQLiteEventStore_enter cfg d =
     \<lparr>config = cfg, connection = Some Connection, events_processed = 0,
      batches_processed = 0, database = d\<rparr>"

definition row_values :: "SQLiteEvent \<Rightarrow> event_row" where
  "row_values event =
     \<lparr>row_id = se_id event, row_recorded_at = se_recorded_at event,
      row_event_type = se_type event, row_stream_name = se_stream_name event,
      row_data = se_data event,
      row_eventstore_metadata = se_eventstore_metadata event\<rparr>"

definition save_events_batch ::
  "SQLiteEvent list \<Rightarrow> SQLiteEventStore \<Rightarrow> error option \<times> SQLiteEventStore" where
  "save_events_batch evs s =
     (if evs = [] \<or> connection s = None then (None, s)
      else
        (case executemany (map row_values evs) (database s) of
           (Some e, d1) \<Rightarrow> (Some e, s\<lparr>database := d1\<rparr>)
         | (None, d1) \<Rightarrow>
             (let s1 = s\<lparr>events_processed := events_processed s + int (length evs),
                          batches_processed := batches_processed s + 1,
                          database := d1\<rparr>
              in if commit_frequency (config s1) = 0 then (Some ZeroDivisionError, s1)
                 else if batches_processed s1 mod commit_frequency (config s1) = 0 then
                   (case commit (database s1) of (e, d2) \<Rightarrow> (e, s1\<lparr>database := d2\<rparr>))
                 else (None, s1))))"

definition update_conversion_metadata ::
  "pystr \<Rightarrow> pystr \<Rightarrow> SQLiteEventStore \<Rightarrow> error option \<times> SQLiteEventStore" where
  "update_conversion_metadata key val s =
     (if connection s = None then (None, s)
      else (case execute_metadata key val (database s) of
              (e, d1) \<Rightarrow> (e, s\<lparr>database := d1\<rparr>)))"

datatype stat_value = SInt int | SRat rat | SRange "int option" "int option"

fun sql_min :: "int list \<Rightarrow> int option" where
  "sql_min [] = None"
| "sql_min (x # xs) = Some (fold min xs x)"

fun sql_max :: "int list \<Rightarrow> int option" where
  "sql_max [] = None"
| "sql_max (x # xs) = Some (fold max xs x)"

definition get_stats ::
  "nat \<Rightarrow> SQLiteEventStore \<Rightarrow> (error + (string \<rightharpoonup> stat_value)) \<times> SQLiteEventStore" where
  \<comment> \<open>\<open>st_size\<close> is what \<^verbatim>\<open>db_path.stat().st_size\<close> reads\<close>
  "get_stats st_size s =
     (if connection s = None then (Inr Map.empty, s)
      else
        (case issue SelectCount (database s) of
           (True, d1) \<Rightarrow> (Inl SqliteError, s\<lparr>database := d1\<rparr>)
         | (False, d1) \<Rightarrow>
             (case issue SelectRange d1 of
                (True, d2) \<Rightarrow> (Inl SqliteError, s\<lparr>database := d2\<rparr>)
              | (False, d2) \<Rightarrow>
                  (Inr [''total_events'' \<mapsto> SInt (int (length (events d2))),
                        ''events_processed_this_session'' \<mapsto> SInt (events_processed s),
                        ''batches_processed'' \<mapsto> SInt (batches_processed s),
                        ''date_range'' \<mapsto>
                           SRange (sql_min (map row_recorded_at (events d2)))
                                  (sql_max (map row_recorded_at (events d2))),
                        ''database_size_mb'' \<mapsto> SRat (of_nat st_size / (1024 * 1024))],
                   s\<lparr>database := d2\<rparr>))))"

definition and_then ::
  "error option \<times> 's \<Rightarrow> ('s \<Rightarrow> error option \<times> 's) \<Rightarrow> error option \<times> 's" where
  \<comment> \<open>the next statement runs unless the one before raised\<close>
  "and_then r f = (case r of (Some e, s) \<Rightarrow> (Some e, s) | (None, s) \<Rightarrow> f s)"

definition on_database ::
  "(database \<Rightarrow> error option \<times> database) \<Rightarrow> SQLiteEventStore
     \<Rightarrow> error option \<times> SQLiteEventStore" where
  \<comment> \<open>a call on \<^verbatim>\<open>self.connection\<close>\<close>
  "on_database f s = (case f (database s) of (e, d1) \<Rightarrow> (e, s\<lparr>database := d1\<rparr>))"

definition close_try :: "int \<Rightarrow> SQLiteEventStore \<Rightarrow> error option \<times> SQLiteEventStore" where
  \<comment> \<open>the \<^verbatim>\<open>try\<close> block of \<^verbatim>\<open>close\<close>; \<open>now\<close> is \<^verbatim>\<open>int(time.time())\<close>\<close>
  "close_try now s =
     and_then (and_then (and_then (and_then
       (on_database commit s)
       (update_conversion_metadata (lit ''last_conversion'') (str_int now)))
       (\<lambda>s1. update_conversion_metadata (lit ''total_events'')
                (str_int (events_processed s1)) s1))
       (on_database commit))
       (on_database close_connection)"

definition is_sqlite_error :: "error \<Rightarrow> bool" where
  "is_sqlite_error e = (e = SqliteError \<or> e = IntegrityError)"

definition close :: "int \<Rightarrow> SQLiteEventStore \<Rightarrow> error option \<times> SQLiteEventStore" where
  "close now s =
     (case connection s of
        None \<Rightarrow> (None, s)
      | Some c \<Rightarrow>
          (case close_try now s of
             (None, s1) \<Rightarrow> (None, s1\<lparr>connection := None\<rparr>)
           | (Some e, s1) \<Rightarrow>
               (if is_sqlite_error e then None else Some e, s1\<lparr>connection := None\<rparr>)))"

fun save_batches ::
  "SQLiteEvent list list \<Rightarrow> SQLiteEventStore \<Rightarrow> error option \<times> SQLiteEventStore" where
  \<comment> \<open>a caller writing batch after batch; the first exception ends it\<close>
  "save_batches [] s = (None, s)"
| "save_batches (b # bs) s =
     (case save_events_batch b s of
        (Some e, s1) \<Rightarrow> (Some e, s1)
      | (None, s1) \<Rightarrow> save_batches bs s1)"

subsection \<open>\<^verbatim>\<open>convert_events\<close>\<close>

text \<open>
  The source's lazy sequence either yields an event or raises while reading.
  The run is modelled from the point where both context managers have been
  entered, and up to the exit of the store's context manager.
\<close>

datatype read_item = Event RecordedEvent | ReadFailure

record loop_state =
  events_batch :: "SQLiteEvent list"
  total_processed :: int
  skipped_events :: int
  db :: SQLiteEventStore

fun stream_events ::
  "ConversionConfig \<Rightarrow> read_item list \<Rightarrow> loop_state \<Rightarrow> error option \<times> loop_state" where
  \<comment> \<open>the \<^verbatim>\<open>for\<close> loop; the result says whether an exception left it\<close>
  "stream_events cfg [] st = (None, st)"
| "stream_events cfg (ReadFailure # rest) st = (Some ReadError, st)"
| "stream_events cfg (Event event # rest) st =
     (case SQLiteEvent_init event (validate_data cfg) of
        Inl (EventValidationError k) \<Rightarrow>
          stream_events cfg rest (st\<lparr>skipped_events := skipped_events st + 1\<rparr>)
      | Inl e \<Rightarrow> (Some e, st)
      | Inr sqlite_event \<Rightarrow>
          (let st1 = st\<lparr>events_batch := events_batch st @ [sqlite_event]\<rparr>
           in if int (length (events_batch st1)) \<ge> batch_size cfg then
                (case save_events_batch (events_batch st1) (db st1) of
                   (Some e, db1) \<Rightarrow> (Some e, st1\<lparr>db := db1\<rparr>)
                 | (None, db1) \<Rightarrow>
                     (let st2 = st1\<lparr>total_processed :=
                                       total_processed st1 + int (length (events_batch st1)),
                                     db := db1\<rparr>
                      in if batch_size cfg * 10 = 0 then (Some ZeroDivisionError, st2)
                         else stream_events cfg rest (st2\<lparr>events_batch := []\<rparr>)))
              else stream_events cfg rest st1))"

definition flush_remaining :: "loop_state \<Rightarrow> error option \<times> loop_state" where
  \<comment> \<open>the statement after the loop, inside the same \<^verbatim>\<open>try\<close>\<close>
  "flush_remaining st =
     (if events_batch st \<noteq> [] then
        (case save_events_batch (events_batch st) (db st) of
           (Some e, db1) \<Rightarrow> (Some e, st\<lparr>db := db1\<rparr>)
         | (None, db1) \<Rightarrow>
             (None, st\<lparr>total_processed := total_processed st + int (length (events_batch st)),
                        db := db1\<rparr>))
      else (None, st))"

definition py_truediv :: "rat \<Rightarrow> rat \<Rightarrow> error + rat" where
  "py_truediv a b = (if b = 0 then Inl ZeroDivisionError else Inr (a / b))"

definition events_per_second :: "int \<Rightarrow> rat \<Rightarrow> error + rat" where
  "events_per_second n duration =
     (if duration > 0 then py_truediv (of_int n) duration else Inr 0)"

record environment =
  start_time :: rat
  end_time :: rat
  close_time :: int
  st_size :: nat

definition report ::
  "environment \<Rightarrow> loop_state \<Rightarrow> (error + (string \<rightharpoonup> stat_value)) \<times> SQLiteEventStore" where
  "report env st =
     (case get_stats (st_size env) (db st) of
        (Inl e, db1) \<Rightarrow> (Inl e, db1)
      | (Inr stats, db1) \<Rightarrow>
          (let duration = end_time env - start_time env
           in case events_per_second (total_processed st) duration of
                Inl e \<Rightarrow> (Inl e, db1)
              | Inr rate \<Rightarrow>
                  (Inr (stats(''conversion_duration_seconds'' \<mapsto> SRat duration,
                              ''events_per_second'' \<mapsto> SRat rate,
                              ''skipped_events'' \<mapsto> SInt (skipped_events st))),
                   db1)))"

definition initial_state :: "ConversionConfig \<Rightarrow> database \<Rightarrow> loop_state" where
  \<comment> \<open>the store as \<^verbatim>\<open>__enter__\<close> returns it, an empty buffer, counters at zero\<close>
  "initial_state cfg d =
     \<lparr>events_batch = [], total_processed = 0, skipped_events = 0,
      db = SQLiteEventStore_enter cfg d\<rparr>"

definition convert_events ::
  "ConversionConfig \<Rightarrow> environment \<Rightarrow> read_item list \<Rightarrow> database
     \<Rightarrow> (error + (string \<rightharpoonup> stat_value)) \<times> SQLiteEventStore" where
  "convert_events cfg env read_response d =
     (let \<comment> \<open>inner \<^verbatim>\<open>try\<close>: the loop, then the remaining events\<close>
          (exc, st1) = and_then (stream_events cfg read_response (initial_state cfg d))
                         flush_remaining;
          \<comment> \<open>\<^verbatim>\<open>finally\<close>: \<^verbatim>\<open>read_response.stop()\<close>, which touches neither the
              buffer nor the store\<close>
          (result, db1) = (case exc of Some e \<Rightarrow> (Inl e, db st1) | None \<Rightarrow> report env st1)
      in \<comment> \<open>\<^verbatim>\<open>__exit__\<close> of the store\<close>
         (case close (close_time env) db1 of
            (Some e, db2) \<Rightarrow> (Inl e, db2)
          | (None, db2) \<Rightarrow> (result, db2)))"

subsection \<open>Words of the specification\<close>

definition present :: "py_value option \<Rightarrow> bool" where
  \<comment> \<open>the event has the attribute and its value is not \<^verbatim>\<open>None\<close>\<close>
  "present a = (a \<noteq> None \<and> a \<noteq> Some PyNone)"

definition kept :: "py_value option \<Rightarrow> py_value option" where
  \<comment> \<open>what the metadata mapping holds for an attribute whose default is \<^verbatim>\<open>None\<close>:
      nothing when the attribute is absent, its value otherwise, a datetime as the
      integer of its timestamp\<close>
  "kept a =
     (case a of
        None \<Rightarrow> None
      | Some PyNone \<Rightarrow> None
      | Some v \<Rightarrow> Some (convert_timestamp v))"

fun cadence :: "int \<Rightarrow> int \<Rightarrow> SQLiteEvent list list \<Rightarrow> driver_call list" where
  \<comment> \<open>the driver calls the specification expects for batches written one after the
      other, \<open>c\<close> batches having been written before: each batch in one
      \<^verbatim>\<open>executemany\<close>, followed by a commit exactly when the batch counter has become a
      multiple of \<open>n\<close>\<close>
  "cadence n c [] = []"
| "cadence n c (b # bs) =
     Executemany (map row_values b) # (if (c + 1) mod n = 0 then [Commit] else [])
       @ cadence n (c + 1) bs"


definition calls :: "SQLiteEventStore \<Rightarrow> driver_call list" where
  \<comment> \<open>the driver calls issued so far through the store\<close>
  "calls s = journal (database s)"


subsection \<open>Concrete inputs\<close>

definition plain_event :: RecordedEvent where
  "plain_event =
     \<lparr>raw_id = lit ''e1'', raw_type = Some (lit ''TestEvent''),
      raw_stream_name = Some (lit ''test-stream''), raw_recorded_at = 1672574400,
      raw_data = PyNone,
      stream_position = Some (PyInt 1), commit_position = Some (PyInt 100),
      prepare_position = Some (PyInt 99), retry_count = Some (PyInt 0),
      link = Some PyNone, content_type = Some (PyStr (lit ''application/json'')),
      created = Some (PyDatetime 1672574400)\<rparr>"

definition bare_event :: RecordedEvent where
  \<comment> \<open>an event object that has none of the seven positioning attributes\<close>
  "bare_event =
     \<lparr>raw_id = lit ''e2'', raw_type = None, raw_stream_name = None,
      raw_recorded_at = 1672574400, raw_data = PyNone,
      stream_position = None, commit_position = None, prepare_position = None,
      retry_count = None, link = None, content_type = None, created = None\<rparr>"

definition nul_event :: RecordedEvent where
  \<comment> \<open>an event whose type is the one-character string U+0000\<close>
  "nul_event = bare_event\<lparr>raw_type := Some [0]\<rparr>"

definition example_config :: ConversionConfig where
  "example_config =
     \<lparr>eventstore_uri = lit ''esdb://localhost:2113'', db_path = lit ''eventstore.db'',
      batch_size = 2, commit_frequency = 2, validate_data = True,
      create_indexes = True\<rparr>"

definition empty_database :: database where
  "empty_database =
     \<lparr>events = [], conversion_metadata = [], durable_events = [],
      durable_metadata = [], journal = [], faults = []\<rparr>"

definition bare_record :: SQLiteEvent where
  \<comment> \<open>the record that normalising \<open>bare_event\<close> gives\<close>
  \<open>bare_record =
     \<lparr>se_id = lit ''e2'', se_type = lit ''unknown'', se_stream_name = lit ''unknown'',
      se_recorded_at = 1672574400, se_data = None,
      se_eventstore_metadata = lit ''{"retry_count": 0}''\<rparr>\<close>

definition other_record :: SQLiteEvent where
  "other_record = bare_record\<lparr>se_id := lit ''e3''\<rparr>"

definition rewritten_record :: SQLiteEvent where
  \<comment> \<open>the id of \<open>bare_record\<close> with another payload\<close>
  "rewritten_record = bare_record\<lparr>se_data := Some (lit ''{}'')\<rparr>"

definition example_env :: environment where
  "example_env =
     \<lparr>start_time = 1700000000, end_time = 1700000002, close_time = 1700000002,
      st_size = 4096\<rparr>"

definition used_database :: database where
  \<comment> \<open>a database file that an earlier run has left with one row\<close>
  "used_database =
     \<lparr>events = [row_values bare_record], conversion_metadata = [],
      durable_events = [row_values bare_record], durable_metadata = [],
      journal = [], faults = []\<rparr>"

definition failing_database :: database where
  \<comment> \<open>the second driver call will raise\<close>
  "failing_database = empty_database\<lparr>faults := [False, True]\<rparr>"

section \<open>Properties of the normaliser\<close>


lemma collect_all_Inr:
  "\<forall>r \<in> set rs. \<exists>x. r = Inr x \<Longrightarrow> \<exists>xs. collect rs = Inr xs"
  by (induction rs) auto

lemma map_of_cleaned:
  "distinct (map fst kvs) \<Longrightarrow>
   map_of (map (\<lambda>(key, v). (key, g v)) (filter (\<lambda>(key, v). v \<noteq> PyNone) kvs)) k =
     (case map_of kvs k of
        None \<Rightarrow> None
      | Some v \<Rightarrow> if v = PyNone then None else Some (g v))"
proof (induction kvs)
  case Nil
  then show ?case by simp
next
  case (Cons kv kvs)
  obtain k' v' where kv: "kv = (k', v')" by (cases kv)
  have "k' \<notin> fst ` set kvs" using Cons.prems kv by simp
  then have none: "map_of kvs k' = None" by (simp add: map_of_eq_None_iff)
  show ?case using Cons kv none by (auto split: option.splits)
qed

lemma metadata_keys:
  "map fst (metadata event) =
     [lit ''stream_position'', lit ''commit_position'', lit ''prepare_position'',
      lit ''retry_count'', lit ''link'', lit ''content_type'', lit ''created'']"
  by (simp add: metadata_def)

lemma metadata_distinct: "distinct (map fst (metadata event))"
  unfolding metadata_keys by (simp add: lit_def)

lemma cleaned_lookup:
  "map_of (cleaned_metadata event) k =
     (case map_of (metadata event) k of
        None \<Rightarrow> None
      | Some v \<Rightarrow> if v = PyNone then None else Some (convert_timestamp v))"
  unfolding cleaned_metadata_def by (rule map_of_cleaned [OF metadata_distinct])

lemma kept_getattr:
  "(if getattr a PyNone = PyNone then None
    else Some (convert_timestamp (getattr a PyNone))) = kept a"
  by (cases a) (auto simp: getattr_def kept_def split: py_value.splits)

lemma lookup_stream_position:
  "map_of (cleaned_metadata event) (lit ''stream_position'') = kept (stream_position event)"
  by (simp add: cleaned_lookup metadata_def lit_def kept_getattr)

lemma lookup_commit_position:
  "map_of (cleaned_metadata event) (lit ''commit_position'') = kept (commit_position event)"
  by (simp add: cleaned_lookup metadata_def lit_def kept_getattr)

lemma lookup_prepare_position:
  "map_of (cleaned_metadata event) (lit ''prepare_position'') = kept (prepare_position event)"
  by (simp add: cleaned_lookup metadata_def lit_def kept_getattr)

lemma lookup_link:
  "map_of (cleaned_metadata event) (lit ''link'') = kept (link event)"
  by (simp add: cleaned_lookup metadata_def lit_def kept_getattr)

lemma lookup_content_type:
  "map_of (cleaned_metadata event) (lit ''content_type'') = kept (content_type event)"
  by (simp add: cleaned_lookup metadata_def lit_def kept_getattr)

lemma lookup_created:
  "map_of (cleaned_metadata event) (lit ''created'') = kept (created event)"
  by (simp add: cleaned_lookup metadata_def lit_def kept_getattr)

lemma lookup_retry_count:
  "map_of (cleaned_metadata event) (lit ''retry_count'') =
     (case retry_count event of None \<Rightarrow> Some (PyInt 0) | Some v \<Rightarrow> kept (Some v))"
  by (cases "retry_count event")
     (simp_all add: cleaned_lookup metadata_def lit_def getattr_def kept_def
        split: py_value.splits)

lemma cleaned_keys:
  "set (map fst (cleaned_metadata event)) \<subseteq>
     {lit ''stream_position'', lit ''commit_position'', lit ''prepare_position'',
      lit ''retry_count'', lit ''link'', lit ''content_type'', lit ''created''}"
proof -
  have "set (map fst (cleaned_metadata event)) \<subseteq> set (map fst (metadata event))"
    by (force simp: cleaned_metadata_def)
  then show ?thesis unfolding metadata_keys by simp
qed

lemma cleaned_no_datetime:
  "(key, v) \<in> set (cleaned_metadata event) \<Longrightarrow> v \<noteq> PyDatetime t"
  by (auto simp: cleaned_metadata_def elim: convert_timestamp.elims)

lemma serialize_metadata_succeeds:
  assumes "\<forall>(key, v) \<in> set (cleaned_metadata event). \<exists>t. json_dumps v = Inr t"
  shows "\<exists>m. serialize_metadata event = Inr m"
proof -
  let ?f = "(\<lambda>(k, v). case json_key k of Inl e \<Rightarrow> Inl e
              | Inr ks \<Rightarrow> (case json_dumps v of Inl e \<Rightarrow> Inl e
                   | Inr t \<Rightarrow> Inr (json_string ks @ lit '': '' @ t)))"
  let ?kvs = "map (\<lambda>(key, v). (PyStr key, v)) (cleaned_metadata event)"
  have "\<forall>r \<in> set (map ?f ?kvs). \<exists>x. r = Inr x" using assms by fastforce
  then obtain ts where "collect (map ?f ?kvs) = Inr ts" using collect_all_Inr by blast
  then show ?thesis by (simp add: serialize_metadata_def)
qed

lemma serialize_bare_event:
  \<open>serialize_metadata bare_event = Inr (lit ''{"retry_count": 0}'')\<close>
  by (simp add: bare_event_def cleaned_metadata_def metadata_def getattr_def
      serialize_metadata_def json_string_def escape_char_def lit_def str_int_def digits.simps)

text \<open>
  C2, as the specification states it, fails: the serialized metadata does not hold
  exactly the attributes whose value is present. An event object without a
  \<^verbatim>\<open>retry_count\<close> attribute gets \<^verbatim>\<open>"retry_count": 0\<close>, the default of the
  \<^verbatim>\<open>getattr\<close> call.
\<close>

theorem metadata_absent_retry_count_counterexample:
  \<open>\<not> present (retry_count bare_event)
   \<and> map fst (cleaned_metadata bare_event) = [lit ''retry_count'']
   \<and> serialize_metadata bare_event = Inr (lit ''{"retry_count": 0}'')\<close>
  using serialize_bare_event
  by (simp add: present_def bare_event_def cleaned_metadata_def metadata_def getattr_def)

text \<open>
  C2 (amended): the mapping that is serialized has no other keys than the seven
  positioning attributes; it holds \<^verbatim>\<open>retry_count\<close> with the value 0 when the
  event lacks that attribute, and otherwise exactly the attributes that the event
  has with a value other than \<^verbatim>\<open>None\<close>; a datetime value appears as the integer
  of its timestamp, so no datetime is left in the mapping; serialization returns a
  text whenever every value kept is one \<^verbatim>\<open>json.dumps\<close> can write.
\<close>

theorem metadata_serialization:
  "map_of (cleaned_metadata event) (lit ''stream_position'') = kept (stream_position event)
   \<and> map_of (cleaned_metadata event) (lit ''commit_position'') = kept (commit_position event)
   \<and> map_of (cleaned_metadata event) (lit ''prepare_position'') = kept (prepare_position event)
   \<and> map_of (cleaned_metadata event) (lit ''retry_count'') =
       (case retry_count event of None \<Rightarrow> Some (PyInt 0) | Some v \<Rightarrow> kept (Some v))
   \<and> map_of (cleaned_metadata event) (lit ''link'') = kept (link event)
   \<and> map_of (cleaned_metadata event) (lit ''content_type'') = kept (content_type event)
   \<and> map_of (cleaned_metadata event) (lit ''created'') = kept (created event)
   \<and> set (map fst (cleaned_metadata event)) \<subseteq>
       {lit ''stream_position'', lit ''commit_position'', lit ''prepare_position'',
        lit ''retry_count'', lit ''link'', lit ''content_type'', lit ''created''}
   \<and> (\<forall>(key, v) \<in> set (cleaned_metadata event). \<forall>t. v \<noteq> PyDatetime t)
   \<and> ((\<forall>(key, v) \<in> set (cleaned_metadata event). \<exists>t. json_dumps v = Inr t)
        \<longrightarrow> (\<exists>m. serialize_metadata event = Inr m))"
proof -
  have dt: "\<forall>(key, v) \<in> set (cleaned_metadata event). \<forall>t. v \<noteq> PyDatetime t"
    using cleaned_no_datetime by fastforce
  have ok: "(\<forall>(key, v) \<in> set (cleaned_metadata event). \<exists>t. json_dumps v = Inr t)
        \<longrightarrow> (\<exists>m. serialize_metadata event = Inr m)"
    using serialize_metadata_succeeds by (rule impI)
  show ?thesis
    by (intro conjI lookup_stream_position lookup_commit_position lookup_prepare_position
        lookup_retry_count lookup_link lookup_content_type lookup_created
        cleaned_keys dt ok)
qed

theorem metadata_serialization_witness:
  "cleaned_metadata plain_event =
     [(lit ''stream_position'', PyInt 1), (lit ''commit_position'', PyInt 100),
      (lit ''prepare_position'', PyInt 99), (lit ''retry_count'', PyInt 0),
      (lit ''content_type'', PyStr (lit ''application/json'')),
      (lit ''created'', PyInt 1672574400)]
   \<and> (\<exists>m. serialize_metadata plain_event = Inr m)
   \<and> map_of (cleaned_metadata plain_event) (lit ''created'') = Some (PyInt 1672574400)
   \<and> map_of (cleaned_metadata plain_event) (lit ''link'') = None"
proof -
  have c: "cleaned_metadata plain_event =
     [(lit ''stream_position'', PyInt 1), (lit ''commit_position'', PyInt 100),
      (lit ''prepare_position'', PyInt 99), (lit ''retry_count'', PyInt 0),
      (lit ''content_type'', PyStr (lit ''application/json'')),
      (lit ''created'', PyInt 1672574400)]"
    by (simp add: cleaned_metadata_def metadata_def getattr_def plain_event_def)
  have ok: "\<forall>(key, v) \<in> set (cleaned_metadata plain_event). \<exists>t. json_dumps v = Inr t"
    unfolding c by simp
  have k: "kept (created plain_event) = Some (PyInt 1672574400)"
          "kept (link plain_event) = None"
    by (simp_all add: kept_def plain_event_def)
  have "\<exists>m. serialize_metadata plain_event = Inr m"
    using metadata_serialization [of plain_event] ok by blast
  moreover have "map_of (cleaned_metadata plain_event) (lit ''created'') = Some (PyInt 1672574400)"
    using metadata_serialization [of plain_event] k by simp
  moreover have "map_of (cleaned_metadata plain_event) (lit ''link'') = None"
    using metadata_serialization [of plain_event] k by simp
  ultimately show ?thesis using c by simp
qed





text \<open>
  C9, as the specification states it, fails in its last part: the type of an event
  may be a non-empty string that starts with U+0000. Normalisation keeps it, the
  SQL function \<^verbatim>\<open>length\<close> gives 0 for it, and the row is refused by the
  \<^verbatim>\<open>CHECK (length(event_type) > 0)\<close> clause of the table.
\<close>

theorem nul_type_violates_check_counterexample:
  "(case SQLiteEvent_init nul_event True of
      Inl e \<Rightarrow> False
    | Inr r \<Rightarrow>
        se_type r = [0] \<and> sqlite_length (se_type r) = 0
        \<and> \<not> check_constraints (row_values r)
        \<and> fst (save_events_batch [r] (SQLiteEventStore_enter example_config empty_database))
            = Some IntegrityError)"
proof -
  have m: "serialize_metadata nul_event = serialize_metadata bare_event"
    by (simp add: serialize_metadata_def cleaned_metadata_def metadata_def nul_event_def)
  have init: \<open>SQLiteEvent_init nul_event True =
      Inr \<lparr>se_id = lit ''e2'', se_type = [0], se_stream_name = lit ''unknown'',
           se_recorded_at = 1672574400, se_data = None,
           se_eventstore_metadata = lit ''{"retry_count": 0}''\<rparr>\<close>
    unfolding SQLiteEvent_init_def m serialize_bare_event
    by (simp add: process_event_data_def nul_event_def bare_event_def py_or_def)
  show ?thesis
    unfolding init
    by (simp add: sqlite_length_def check_constraints_def row_values_def
        save_events_batch_def SQLiteEventStore_enter_def executemany_def issue_def
        empty_database_def)
qed

text \<open>
  C9 (amended): whenever normalisation succeeds, the record's event type and stream
  name are non-empty strings, \<^verbatim>\<open>"unknown"\<close> standing in for a source field that is
  absent or empty; each of them meets the table's length-positive constraint exactly
  when its first character is not U+0000.
\<close>

theorem normalized_names_nonempty:
  assumes "SQLiteEvent_init event validate = Inr r"
  shows "se_type r \<noteq> [] \<and> se_stream_name r \<noteq> []
       \<and> (raw_type event = None \<or> raw_type event = Some [] \<longrightarrow>
            se_type r = lit ''unknown'')
       \<and> (raw_stream_name event = None \<or> raw_stream_name event = Some [] \<longrightarrow>
            se_stream_name r = lit ''unknown'')
       \<and> (0 < sqlite_length (se_type r) \<longleftrightarrow> hd (se_type r) \<noteq> 0)
       \<and> (0 < sqlite_length (se_stream_name r) \<longleftrightarrow> hd (se_stream_name r) \<noteq> 0)"
proof -
  have ne: "py_or x (lit ''unknown'') \<noteq> []" for x
    by (simp add: py_or_def lit_def split: option.splits)
  have len: "s \<noteq> [] \<Longrightarrow> (0 < sqlite_length s \<longleftrightarrow> hd s \<noteq> 0)" for s
    by (cases s) (simp_all add: sqlite_length_def)
  from assms obtain d m where r:
    "r = \<lparr>se_id = raw_id event,
          se_type = py_or (raw_type event) (lit ''unknown''),
          se_stream_name = py_or (raw_stream_name event) (lit ''unknown''),
          se_recorded_at = raw_recorded_at event,
          se_data = d,
          se_eventstore_metadata = m\<rparr>"
    by (auto simp: SQLiteEvent_init_def split: sum.splits)
  show ?thesis using ne len by (auto simp: r py_or_def)
qed

theorem normalized_names_nonempty_witness:
  "(\<exists>r. SQLiteEvent_init (bare_event\<lparr>raw_stream_name := Some []\<rparr>) True = Inr r
        \<and> se_type r = lit ''unknown'' \<and> se_stream_name r = lit ''unknown''
        \<and> 0 < sqlite_length (se_type r) \<and> 0 < sqlite_length (se_stream_name r))"
proof -
  have m: "serialize_metadata (bare_event\<lparr>raw_stream_name := Some []\<rparr>)
             = serialize_metadata bare_event"
    by (simp add: serialize_metadata_def cleaned_metadata_def metadata_def)
  obtain r where r: "SQLiteEvent_init (bare_event\<lparr>raw_stream_name := Some []\<rparr>) True = Inr r"
    unfolding SQLiteEvent_init_def m serialize_bare_event
    by (simp add: process_event_data_def bare_event_def)
  have raw: "raw_type (bare_event\<lparr>raw_stream_name := Some []\<rparr>) = None"
            "raw_stream_name (bare_event\<lparr>raw_stream_name := Some []\<rparr>) = Some []"
    by (simp_all add: bare_event_def)
  have len: "0 < sqlite_length (lit ''unknown'')"
    by (simp add: sqlite_length_def lit_def)
  show ?thesis
    using normalized_names_nonempty [OF r] r raw len by auto
qed

section \<open>Properties of the store\<close>

lemma insert_rows_succeeds:
  "\<forall>r \<in> set rows. check_constraints r \<Longrightarrow> fst (insert_rows rows tbl) = None"
  by (induction rows arbitrary: tbl) auto

lemma executemany_succeeds:
  assumes "faults d = []" and "\<forall>r \<in> set rows. check_constraints r"
  shows "fst (executemany rows d) = None \<and> faults (snd (executemany rows d)) = []"
proof -
  obtain e tbl where i: "insert_rows rows (events d) = (e, tbl)"
    by (cases "insert_rows rows (events d)")
  have "e = None" using insert_rows_succeeds [OF assms(2), of "events d"] i by simp
  then show ?thesis using assms(1) i by (simp add: executemany_def issue_def)
qed

lemma save_events_batch_succeeds:
  assumes "faults (database s) = []"
    and "\<forall>e \<in> set evs. check_constraints (row_values e)"
    and "commit_frequency (config s) \<noteq> 0"
  shows "fst (save_events_batch evs s) = None
       \<and> faults (database (snd (save_events_batch evs s))) = []"
proof -
  obtain e d1 where x: "executemany (map row_values evs) (database s) = (e, d1)"
    by (cases "executemany (map row_values evs) (database s)")
  have "e = None" "faults d1 = []"
    using executemany_succeeds [of "database s" "map row_values evs"] assms(1,2) x
    by simp_all
  then show ?thesis
    using assms(1,3) x
    by (simp add: save_events_batch_def commit_def issue_def Let_def)
qed

lemma save_events_batch_config:
  "config (snd (save_events_batch evs s)) = config s"
  by (simp add: save_events_batch_def Let_def split: prod.splits option.splits)

lemma save_batches_succeeds:
  assumes "faults (database s) = []"
    and "\<forall>b \<in> set bs. \<forall>e \<in> set b. check_constraints (row_values e)"
    and "commit_frequency (config s) \<noteq> 0"
  shows "fst (save_batches bs s) = None"
  using assms
proof (induction bs arbitrary: s)
  case Nil
  then show ?case by simp
next
  case (Cons b bs)
  obtain e s1 where r: "save_events_batch b s = (e, s1)" by (cases "save_events_batch b s")
  have 1: "e = None" "faults (database s1) = []"
    using save_events_batch_succeeds [of s b] Cons.prems r by simp_all
  have 2: "commit_frequency (config s1) \<noteq> 0"
    using save_events_batch_config [of b s] r Cons.prems(3) by simp
  show ?case using Cons.IH [OF 1(2) _ 2] Cons.prems(2) r 1(1) by simp
qed

lemma check_examples:
  "check_constraints (row_values bare_record)"
  "check_constraints (row_values other_record)"
  "check_constraints (row_values rewritten_record)"
  by (simp_all add: check_constraints_def row_values_def bare_record_def other_record_def
      rewritten_record_def sqlite_length_def lit_def)

lemma example_ids:
  "se_id other_record \<noteq> se_id bare_record" "se_id rewritten_record = se_id bare_record"
  by (simp_all add: bare_record_def other_record_def rewritten_record_def lit_def)


lemma issue_journal: "journal (snd (issue c d)) = journal d @ [c]"
  by (simp add: issue_def split: list.splits)

lemma and_then_error:
  "fst (and_then r f) = Some e \<Longrightarrow> fst r = Some e \<or> (\<exists>s. fst (f s) = Some e)"
  by (auto simp: and_then_def split: prod.splits option.splits)

lemma commit_error: "fst (commit d) = Some e \<Longrightarrow> e = SqliteError"
  by (auto simp: commit_def split: prod.splits bool.splits)

lemma close_connection_error: "fst (close_connection d) = Some e \<Longrightarrow> e = SqliteError"
  by (auto simp: close_connection_def split: prod.splits bool.splits)

lemma execute_metadata_error: "fst (execute_metadata k v d) = Some e \<Longrightarrow> e = SqliteError"
  by (auto simp: execute_metadata_def split: prod.splits bool.splits)

lemma on_database_error:
  "fst (on_database f s) = Some e \<Longrightarrow> fst (f (database s)) = Some e"
  by (auto simp: on_database_def split: prod.splits)

lemma update_conversion_metadata_error:
  "fst (update_conversion_metadata k v s) = Some e \<Longrightarrow> e = SqliteError"
  by (auto simp: update_conversion_metadata_def execute_metadata_def
      split: prod.splits if_splits bool.splits)

lemma close_try_error: "fst (close_try now s) = Some e \<Longrightarrow> e = SqliteError"
  unfolding close_try_def
  by (auto dest!: and_then_error on_database_error
      dest: commit_error close_connection_error update_conversion_metadata_error)

lemma close_returns: "fst (close now s) = None"
proof (cases "connection s")
  case None
  then show ?thesis by (simp add: close_def)
next
  case (Some c)
  obtain e s1 where r: "close_try now s = (e, s1)" by (cases "close_try now s")
  show ?thesis
  proof (cases e)
    case None
    then show ?thesis using Some r by (simp add: close_def)
  next
    case (Some x)
    then have "x = SqliteError" using close_try_error [of now s x] r by simp
    then show ?thesis using \<open>connection s = Some c\<close> r Some
      by (simp add: close_def is_sqlite_error_def)
  qed
qed

lemma close_not_raised: "close now s \<noteq> (Some e, s')"
  using close_returns [of now s] by auto

text \<open>
  C10: \<^verbatim>\<open>close()\<close> never raises and always leaves the connection handle cleared,
  whatever driver errors occur while closing; a second \<^verbatim>\<open>close()\<close> returns without
  an error and leaves the store and the database exactly as they were, so it issues
  no commit and no metadata write.
\<close>

theorem close_idempotent:
  "fst (close now s) = None
   \<and> connection (snd (close now s)) = None
   \<and> close now' (snd (close now s)) = (None, snd (close now s))"
proof -
  have 1: "connection (snd (close now s)) = None"
    by (simp add: close_def split: option.splits prod.splits)
  have 2: "close now' (snd (close now s)) = (None, snd (close now s))"
    using 1 by (simp add: close_def)
  show ?thesis using close_returns 1 2 by simp
qed

theorem close_idempotent_witness:
  "fst (close 1700000002 (SQLiteEventStore_enter example_config failing_database)) = None
   \<and> connection (snd (close 1700000002 (SQLiteEventStore_enter example_config failing_database))) = None
   \<and> calls (snd (close 1700000002 (SQLiteEventStore_enter example_config failing_database)))
       = [Commit, ExecuteMetadata (lit ''last_conversion'') (str_int 1700000002)]
   \<and> close 1700000003 (snd (close 1700000002 (SQLiteEventStore_enter example_config failing_database)))
       = (None, snd (close 1700000002 (SQLiteEventStore_enter example_config failing_database)))"
proof -
  have "calls (snd (close 1700000002 (SQLiteEventStore_enter example_config failing_database)))
       = [Commit, ExecuteMetadata (lit ''last_conversion'') (str_int 1700000002)]"
    by (simp add: close_def close_try_def and_then_def on_database_def commit_def issue_def
        update_conversion_metadata_def execute_metadata_def calls_def
        SQLiteEventStore_enter_def failing_database_def empty_database_def)
  then show ?thesis
    using close_idempotent [of 1700000002 "SQLiteEventStore_enter example_config failing_database" 1700000003]
    by simp
qed

lemma insert_rows_fold:
  "insert_rows rows tbl = (None, tbl') \<Longrightarrow> tbl' = fold insert_or_replace rows tbl"
  by (induction rows arbitrary: tbl) (auto split: if_splits)

lemma filter_insert_other:
  "row_id x \<noteq> i \<Longrightarrow>
   filter (\<lambda>r. row_id r = i) (insert_or_replace x tbl) = filter (\<lambda>r. row_id r = i) tbl"
  by (induction tbl) (auto simp: insert_or_replace_def)

lemma filter_insert_same:
  "filter (\<lambda>r. row_id r = row_id x) (insert_or_replace x tbl) = [x]"
  by (induction tbl) (auto simp: insert_or_replace_def)

lemma filter_fold_others:
  "\<forall>x \<in> set rows. row_id x \<noteq> i \<Longrightarrow>
   filter (\<lambda>r. row_id r = i) (fold insert_or_replace rows tbl) = filter (\<lambda>r. row_id r = i) tbl"
  by (induction rows arbitrary: tbl) (auto simp: filter_insert_other)

lemma filter_fold_last:
  "\<forall>x \<in> set post. row_id x \<noteq> row_id r \<Longrightarrow>
   filter (\<lambda>x. row_id x = row_id r) (fold insert_or_replace (pre @ r # post) tbl) = [r]"
  by (simp add: filter_fold_others filter_insert_same)

lemma save_events_batch_events:
  assumes "connection s \<noteq> None" "evs \<noteq> []" "save_events_batch evs s = (None, s')"
  shows "events (database s') = fold insert_or_replace (map row_values evs) (events (database s))
         \<and> connection s' = connection s"
  using assms
  by (auto simp: save_events_batch_def executemany_def issue_def commit_def Let_def
      split: prod.splits option.splits if_splits list.splits bool.splits
      dest!: insert_rows_fold)

lemma save_events_batch_journal:
  assumes "connection s \<noteq> None" "evs \<noteq> []" "save_events_batch evs s = (None, s')"
  shows "journal (database s') =
           journal (database s) @ Executemany (map row_values evs)
             # (if (batches_processed s + 1) mod commit_frequency (config s) = 0
                then [Commit] else [])
         \<and> batches_processed s' = batches_processed s + 1
         \<and> config s' = config s \<and> connection s' = connection s"
  using assms
  by (auto simp: save_events_batch_def executemany_def issue_def commit_def Let_def
      split: prod.splits option.splits if_splits list.splits bool.splits)

text \<open>
  C3: when non-empty batches are written one after the other through an open
  connection and every write returns, the driver calls issued are those of
  \<open>cadence\<close>: one \<^verbatim>\<open>executemany\<close> per batch, followed by a commit exactly when
  the running batch counter is a multiple of \<^verbatim>\<open>commit_frequency\<close>, and by nothing
  otherwise.
\<close>

theorem commit_cadence:
  assumes "connection s \<noteq> None" "\<forall>b \<in> set bs. b \<noteq> []" "save_batches bs s = (None, s')"
  shows "journal (database s') =
           journal (database s) @ cadence (commit_frequency (config s)) (batches_processed s) bs
         \<and> batches_processed s' = batches_processed s + int (length bs)"
  using assms
proof (induction bs arbitrary: s)
  case Nil
  then show ?case by simp
next
  case (Cons b bs)
  from Cons.prems(3) obtain s1 where
    1: "save_events_batch b s = (None, s1)" and 2: "save_batches bs s1 = (None, s')"
    by (auto split: prod.splits option.splits)
  have b: "b \<noteq> []" using Cons.prems(2) by simp
  note j = save_events_batch_journal [OF Cons.prems(1) b 1]
  have "connection s1 \<noteq> None" using j Cons.prems(1) by simp
  then have ih: "journal (database s') =
           journal (database s1) @ cadence (commit_frequency (config s1)) (batches_processed s1) bs
         \<and> batches_processed s' = batches_processed s1 + int (length bs)"
    using Cons.IH [of s1] Cons.prems(2) 2 by simp
  show ?case using ih j by simp
qed

theorem commit_cadence_witness:
  "fst (save_batches [[bare_record], [other_record], [rewritten_record]]
          (SQLiteEventStore_enter example_config empty_database)) = None
   \<and> calls (snd (save_batches [[bare_record], [other_record], [rewritten_record]]
          (SQLiteEventStore_enter example_config empty_database)))
       = [Executemany [row_values bare_record], Executemany [row_values other_record], Commit,
          Executemany [row_values rewritten_record]]"
proof -
  let ?s0 = "SQLiteEventStore_enter example_config empty_database"
  let ?bs = "[[bare_record], [other_record], [rewritten_record]]"
  have s0: "faults (database ?s0) = []" "commit_frequency (config ?s0) = 2"
    "connection ?s0 \<noteq> None" "batches_processed ?s0 = 0" "journal (database ?s0) = []"
    by (simp_all add: SQLiteEventStore_enter_def empty_database_def example_config_def)
  have ok: "fst (save_batches ?bs ?s0) = None"
    using save_batches_succeeds [of ?s0 ?bs] s0 check_examples by simp
  then obtain s' where r: "save_batches ?bs ?s0 = (None, s')"
    by (cases "save_batches ?bs ?s0") simp
  have ne: "\<forall>b \<in> set ?bs. b \<noteq> []" by simp
  show ?thesis
    using commit_cadence [OF s0(3) ne r] r s0 by (simp add: calls_def)
qed


text \<open>
  C6: when a record is written in one batch and a record with the same id, with the
  same or another content, is the last of that id in a later batch, the events
  table holds exactly one row for the id after each write, and after the second
  write it is the row of the later record.
\<close>

theorem upsert_by_id:
  assumes "connection s \<noteq> None"
    and "save_events_batch (pre1 @ e1 # post1) s = (None, s1)"
    and "save_events_batch (pre2 @ e2 # post2) s1 = (None, s2)"
    and "se_id e2 = se_id e1"
    and "\<forall>e \<in> set post1. se_id e \<noteq> se_id e1"
    and "\<forall>e \<in> set post2. se_id e \<noteq> se_id e1"
  shows "filter (\<lambda>r. row_id r = se_id e1) (events (database s1)) = [row_values e1]
       \<and> filter (\<lambda>r. row_id r = se_id e1) (events (database s2)) = [row_values e2]"
proof -
  have id: "row_id (row_values e) = se_id e" for e by (simp add: row_values_def)
  have a: "events (database s1) =
      fold insert_or_replace (map row_values pre1 @ row_values e1 # map row_values post1) (events (database s))"
    and c1: "connection s1 \<noteq> None"
    using save_events_batch_events [OF assms(1) _ assms(2)] assms(1) by simp_all
  have b: "events (database s2) =
      fold insert_or_replace (map row_values pre2 @ row_values e2 # map row_values post2) (events (database s1))"
    using save_events_batch_events [OF c1 _ assms(3)] by simp
  have p1: "\<forall>x \<in> set (map row_values post1). row_id x \<noteq> row_id (row_values e1)"
    using assms(5) by (simp add: id)
  have p2: "\<forall>x \<in> set (map row_values post2). row_id x \<noteq> row_id (row_values e2)"
    using assms(4,6) by (simp add: id)
  show ?thesis
    using filter_fold_last [OF p1] filter_fold_last [OF p2] assms(4)
    unfolding a b by (simp add: id)
qed

theorem upsert_by_id_witness:
  "fst (save_events_batch [bare_record, other_record]
          (SQLiteEventStore_enter example_config empty_database)) = None
   \<and> fst (save_events_batch [rewritten_record]
            (snd (save_events_batch [bare_record, other_record]
                    (SQLiteEventStore_enter example_config empty_database)))) = None
   \<and> filter (\<lambda>r. row_id r = se_id bare_record)
        (events (database (snd (save_events_batch [bare_record, other_record]
                    (SQLiteEventStore_enter example_config empty_database)))))
       = [row_values bare_record]
   \<and> filter (\<lambda>r. row_id r = se_id bare_record)
        (events (database (snd (save_events_batch [rewritten_record]
            (snd (save_events_batch [bare_record, other_record]
                    (SQLiteEventStore_enter example_config empty_database)))))))
       = [row_values rewritten_record]"
proof -
  let ?s0 = "SQLiteEventStore_enter example_config empty_database"
  have s0: "faults (database ?s0) = []" "commit_frequency (config ?s0) \<noteq> 0"
    "connection ?s0 \<noteq> None"
    by (simp_all add: SQLiteEventStore_enter_def empty_database_def example_config_def)
  obtain e1 s1 where r1: "save_events_batch [bare_record, other_record] ?s0 = (e1, s1)"
    by (cases "save_events_batch [bare_record, other_record] ?s0")
  have 1: "e1 = None" "faults (database s1) = []" "commit_frequency (config s1) \<noteq> 0"
    using save_events_batch_succeeds [of ?s0 "[bare_record, other_record]"]
      save_events_batch_config [of "[bare_record, other_record]" ?s0] s0 r1 check_examples
    by simp_all
  obtain e2 s2 where r2: "save_events_batch [rewritten_record] s1 = (e2, s2)"
    by (cases "save_events_batch [rewritten_record] s1")
  have 2: "e2 = None"
    using save_events_batch_succeeds [of s1 "[rewritten_record]"] 1 r2 check_examples
    by simp
  have w1: "save_events_batch ([] @ bare_record # [other_record]) ?s0 = (None, s1)"
    using r1 1 by simp
  have w2: "save_events_batch ([] @ rewritten_record # []) s1 = (None, s2)"
    using r2 2 by simp
  show ?thesis
    using upsert_by_id [OF s0(3) w1 w2] example_ids r1 r2 1 2 by simp
qed

section \<open>Properties of the ingest loop\<close>






















lemma convert_events_result:
  "fst (convert_events cfg env src d) =
     (case and_then (stream_events cfg src (initial_state cfg d)) flush_remaining of
        (Some e, st1) \<Rightarrow> Inl e
      | (None, st1) \<Rightarrow> fst (report env st1))"
  by (simp add: convert_events_def Let_def close_not_raised split: prod.splits option.splits)

lemma empty_source_result:
  "fst (convert_events cfg env [] d) = fst (report env (initial_state cfg d))"
  by (simp add: convert_events_result and_then_def flush_remaining_def initial_state_def)

lemma events_per_second_guarded: "events_per_second n duration \<noteq> Inl ZeroDivisionError"
  by (simp add: events_per_second_def py_truediv_def)

lemma events_per_second_zero: "events_per_second 0 duration = Inr 0"
  by (simp add: events_per_second_def py_truediv_def)

lemma report_initial_stats:
  assumes "fst (report env (initial_state cfg d)) = Inr stats"
  shows "stats ''total_events'' = Some (SInt (int (length (events d))))
       \<and> stats ''events_processed_this_session'' = Some (SInt 0)
       \<and> stats ''events_per_second'' = Some (SRat 0)
       \<and> stats ''skipped_events'' = Some (SInt 0)"
  using assms
  by (auto simp: report_def initial_state_def get_stats_def issue_def SQLiteEventStore_enter_def
      events_per_second_zero Let_def
      split: prod.splits sum.splits list.splits bool.splits if_splits)

lemma report_initial_error:
  "fst (report env (initial_state cfg d)) = Inl e \<Longrightarrow> e = SqliteError"
  by (auto simp: report_def initial_state_def get_stats_def issue_def SQLiteEventStore_enter_def
      events_per_second_zero Let_def
      split: prod.splits sum.splits list.splits bool.splits if_splits)

lemma report_initial_succeeds:
  "faults d = [] \<Longrightarrow> \<exists>stats. fst (report env (initial_state cfg d)) = Inr stats"
  by (simp add: report_def initial_state_def get_stats_def issue_def SQLiteEventStore_enter_def
      events_per_second_zero Let_def)





text \<open>
  C8, as the specification states it, fails: \<^verbatim>\<open>total_events\<close> is the number of rows
  of the events table, and the table keeps the rows of earlier runs. A run over an
  empty source into a database that already holds one row reports 1.
\<close>

theorem empty_source_used_database_counterexample:
  "(case fst (convert_events example_config example_env [] used_database) of
      Inl e \<Rightarrow> False
    | Inr stats \<Rightarrow>
        stats ''total_events'' = Some (SInt 1)
        \<and> stats ''events_processed_this_session'' = Some (SInt 0))"
proof -
  have f: "faults used_database = []" "events used_database = [row_values bare_record]"
    by (simp_all add: used_database_def)
  obtain stats where
    r: "fst (report example_env (initial_state example_config used_database)) = Inr stats"
    using report_initial_succeeds [OF f(1)] by blast
  show ?thesis
    using report_initial_stats [OF r] r f by (simp add: empty_source_result)
qed

text \<open>
  C8 (amended): when a run over an empty source returns its statistics,
  \<^verbatim>\<open>total_events\<close> is the number of rows the events table held when the run began
  (0 for a database without rows), the session counter, the throughput and the
  skipped count are 0; the run does return statistics when no driver call fails;
  the throughput is never computed by a division by zero.
\<close>

theorem empty_source_stats:
  "(\<forall>stats s'. convert_events cfg env [] d = (Inr stats, s') \<longrightarrow>
       stats ''total_events'' = Some (SInt (int (length (events d))))
     \<and> stats ''events_processed_this_session'' = Some (SInt 0)
     \<and> stats ''events_per_second'' = Some (SRat 0)
     \<and> stats ''skipped_events'' = Some (SInt 0))
   \<and> (faults d = [] \<longrightarrow> (\<exists>stats s'. convert_events cfg env [] d = (Inr stats, s')))
   \<and> (\<forall>n duration. events_per_second n duration \<noteq> Inl ZeroDivisionError)
   \<and> fst (convert_events cfg env [] d) \<noteq> Inl ZeroDivisionError"
proof (intro conjI allI impI)
  fix stats s'
  assume "convert_events cfg env [] d = (Inr stats, s')"
  then have r: "fst (report env (initial_state cfg d)) = Inr stats"
    using empty_source_result [of cfg env d] by simp
  note report_initial_stats [OF r]
  then show "stats ''total_events'' = Some (SInt (int (length (events d))))"
    "stats ''events_processed_this_session'' = Some (SInt 0)"
    "stats ''events_per_second'' = Some (SRat 0)"
    "stats ''skipped_events'' = Some (SInt 0)"
    by simp_all
next
  assume "faults d = []"
  then obtain stats where "fst (report env (initial_state cfg d)) = Inr stats"
    using report_initial_succeeds by blast
  then have "fst (convert_events cfg env [] d) = Inr stats"
    by (simp add: empty_source_result)
  then show "\<exists>stats s'. convert_events cfg env [] d = (Inr stats, s')"
    by (metis prod.collapse)
next
  fix n duration
  show "events_per_second n duration \<noteq> Inl ZeroDivisionError"
    by (rule events_per_second_guarded)
next
  show "fst (convert_events cfg env [] d) \<noteq> Inl ZeroDivisionError"
    using report_initial_error [of env cfg d ZeroDivisionError]
    by (auto simp: empty_source_result)
qed

theorem empty_source_stats_witness:
  "faults empty_database = []
   \<and> (\<exists>stats s'. convert_events example_config example_env [] empty_database = (Inr stats, s')
         \<and> stats ''total_events'' = Some (SInt 0)
         \<and> stats ''events_per_second'' = Some (SRat 0))"
proof -
  have f: "faults empty_database = []" "events empty_database = []"
    by (simp_all add: empty_database_def)
  note t = empty_source_stats [of example_config example_env empty_database]
  from t f obtain stats s' where
    r: "convert_events example_config example_env [] empty_database = (Inr stats, s')"
    by blast
  with t f have "stats ''total_events'' = Some (SInt 0)"
    "stats ''events_per_second'' = Some (SRat 0)"
    by simp_all
  then show ?thesis using r f by blast
qed

end
